theory Spec2Isabelle
  imports Main
begin

section \<open>Python strings\<close>

text \<open>
  A Python \<^verbatim>\<open>str\<close> is a sequence of Unicode code points, and \<^verbatim>\<open>len\<close> counts
  code points. The model keeps that: a string is the list of its code points.
  Literals of the source are ASCII and are written through \<open>str\<close>.
\<close>

type_synonym pystr = "nat list"

definition str :: "string \<Rightarrow> pystr" where
  "str s = map of_char s"

text \<open>
  The characters that \<^verbatim>\<open>str.strip()\<close> removes and that \<^verbatim>\<open>\s\<close> matches in a
  \<^verbatim>\<open>str\<close> pattern: Python's Unicode whitespace.
\<close>

definition is_space :: "nat \<Rightarrow> bool" where
  "is_space c \<longleftrightarrow>
     (9 \<le> c \<and> c \<le> 13) \<or> (28 \<le> c \<and> c \<le> 32) \<or> c = 133 \<or> c = 160 \<or> c = 5760
     \<or> (8192 \<le> c \<and> c \<le> 8202) \<or> c = 8232 \<or> c = 8233 \<or> c = 8239 \<or> c = 8287
     \<or> c = 12288"

text \<open>\<^verbatim>\<open>s.strip()\<close>\<close>

definition strip :: "pystr \<Rightarrow> pystr" where
  "strip s = rev (dropWhile is_space (rev (dropWhile is_space s)))"

text \<open>\<^verbatim>\<open>xs[:n]\<close> for a Python integer \<open>n\<close>: a negative bound counts from the end.\<close>

definition py_slice_to :: "'a list \<Rightarrow> int \<Rightarrow> 'a list" where
  "py_slice_to xs n =
     (if 0 \<le> n then take (nat n) xs else take (nat (int (length xs) + n)) xs)"

text \<open>\<^verbatim>\<open>re.sub(r'\s+', ' ', text)\<close>: every maximal run of whitespace becomes one space.\<close>

function collapse_ws :: "pystr \<Rightarrow> pystr" where
  "collapse_ws [] = []"
| "collapse_ws (c # cs) =
     (if is_space c then 32 # collapse_ws (dropWhile is_space cs) else c # collapse_ws cs)"
  by pat_completeness auto
termination
  by (relation "measure length") (auto simp: length_dropWhile_le less_Suc_eq_le)

section \<open>The final steps of \<^verbatim>\<open>fetch_page_content\<close>\<close>

text \<open>
  \<^verbatim>\<open>
  text = re.sub(r'\s+', ' ', text).strip()
  if len(text) > max_length:
      text = text[:max_length] + "..."
  return text
  \<close>
\<close>

definition clean_whitespace :: "pystr \<Rightarrow> pystr" where
  "clean_whitespace text = strip (collapse_ws text)"

definition limit_length :: "pystr \<Rightarrow> int \<Rightarrow> pystr" where
  "limit_length text max_length =
     (if int (length text) > max_length then py_slice_to text max_length @ str ''...''
      else text)"

definition finish_text :: "pystr \<Rightarrow> int \<Rightarrow> pystr" where
  "finish_text text max_length = limit_length (clean_whitespace text) max_length"

section \<open>Length bound\<close>

lemma limit_length_short:
  "int (length t) \<le> m \<Longrightarrow> limit_length t m = t"
  by (simp add: limit_length_def)

lemma limit_length_long:
  "0 \<le> m \<Longrightarrow> m < int (length t) \<Longrightarrow> limit_length t m = take (nat m) t @ str ''...''"
  by (simp add: limit_length_def py_slice_to_def)

lemma length_limit_length_long:
  "0 \<le> m \<Longrightarrow> m < int (length t) \<Longrightarrow> int (length (limit_length t m)) = m + 3"
  by (simp add: limit_length_long str_def min_def)

text \<open>
  C4, as stated, for every \<open>max_length\<close>: a text longer than the bound comes back with
  length \<open>max_length + 3\<close>. The bound is a Python \<^verbatim>\<open>int\<close>; at \<open>max_length = -1\<close> the
  slice \<^verbatim>\<open>text[:-1]\<close> drops only the last character, and the three-character text
  \<^verbatim>\<open>abc\<close> comes back as \<^verbatim>\<open>ab...\<close>, of length 5 and not 2.
\<close>

theorem finish_text_negative_bound_counterexample:
  "int (length (str ''abc'')) > -1
   \<and> finish_text (str ''abc'') (-1) = str ''ab...''
   \<and> int (length (finish_text (str ''abc'') (-1))) \<noteq> -1 + 3"
  by (simp add: finish_text_def clean_whitespace_def strip_def limit_length_def
      py_slice_to_def str_def is_space_def)

text \<open>
  C4, amended: for every text and every \<open>max_length \<ge> 0\<close>, the bounding step returns
  the whitespace-collapsed text unmodified when its length is at most \<open>max_length\<close>, and
  otherwise its first \<open>max_length\<close> characters followed by \<^verbatim>\<open>...\<close>, of length exactly
  \<open>max_length + 3\<close>.
\<close>

theorem finish_text_bound:
  assumes "0 \<le> max_length"
  shows "(int (length (clean_whitespace text)) \<le> max_length \<longrightarrow>
            finish_text text max_length = clean_whitespace text)
       \<and> (int (length (clean_whitespace text)) > max_length \<longrightarrow>
            finish_text text max_length
              = take (nat max_length) (clean_whitespace text) @ str ''...''
          \<and> int (length (finish_text text max_length)) = max_length + 3
          \<and> (\<exists>p. finish_text text max_length = p @ str ''...''))"
proof (intro conjI impI)
  assume "int (length (clean_whitespace text)) \<le> max_length"
  then show "finish_text text max_length = clean_whitespace text"
    by (simp add: finish_text_def limit_length_short)
next
  assume long: "int (length (clean_whitespace text)) > max_length"
  with assms show eq: "finish_text text max_length
      = take (nat max_length) (clean_whitespace text) @ str ''...''"
    by (simp add: finish_text_def limit_length_long)
  from assms long show "int (length (finish_text text max_length)) = max_length + 3"
    unfolding finish_text_def by (rule length_limit_length_long)
  from eq show "\<exists>p. finish_text text max_length = p @ str ''...''"
    by blast
qed

theorem finish_text_bound_witness:
  "(0::int) \<le> 2
   \<and> int (length (clean_whitespace (str ''a  bcd ''))) > 2
   \<and> finish_text (str ''a  bcd '') 2 = str ''a ...''
   \<and> int (length (finish_text (str ''a  bcd '') 2)) = 5
   \<and> finish_text (str ''ab'') 2 = str ''ab''"
  using finish_text_bound [of 2 "str ''a  bcd ''"] finish_text_bound [of 2 "str ''ab''"]
  by (simp add: clean_whitespace_def strip_def str_def is_space_def)

end
